theory Spec2Isabelle
  imports Complex_Main "HOL-Library.Word"
begin

section \<open>Strings and JSON values of the host language\<close>

text \<open>
  The program is TypeScript. A JavaScript string is a sequence of 16-bit code units, so
  it is modelled as a list of 16-bit words: \<open>length\<close> is the source's \<open>.length\<close>, \<open>[]\<close>
  is the empty string \<open>""\<close>, and \<open>@\<close> is concatenation. ASCII literals of the source are
  written with \<open>ascii\<close>; the Chinese literals are written out as their code units.
\<close>

type_synonym jsstring = "16 word list"

definition ascii :: "string \<Rightarrow> jsstring" where
  "ascii s = map (\<lambda>c. of_nat (of_char c)) s"

text \<open>
  \<open>Number.prototype.toString()\<close> on a non-negative integer (an array index, a
  millisecond time stamp): its decimal digits, without leading zeros.
\<close>

definition digit :: "nat \<Rightarrow> 16 word" where
  "digit d = of_nat (48 + d)"

fun toString :: "nat \<Rightarrow> jsstring" where
  "toString n = (if n < 10 then [digit n] else toString (n div 10) @ [digit (n mod 10)])"

declare toString.simps [simp del]

text \<open>\<open>Array.prototype.join(sep)\<close> on an array of strings.\<close>

fun join :: "jsstring \<Rightarrow> jsstring list \<Rightarrow> jsstring" where
  "join sep [] = []"
| "join sep [x] = x"
| "join sep (x # y # ys) = x @ sep @ join sep (y # ys)"

text \<open>
  The values \<open>JSON.parse\<close> can return, together with \<open>undefined\<close>, which is what reading a
  missing property gives. An object is an association list from property names to
  values, read with \<open>map_of\<close>. A number only ever meets the operator \<open>||\<close> in this
  program, which asks whether it is zero, so numbers are modelled by integers.
\<close>

datatype jsval =
    Undefined
  | Null
  | Bool bool
  | Num int
  | Str jsstring
  | Arr "jsval list"
  | Obj "(jsstring \<times> jsval) list"

datatype exn = TypeError | SyntaxError | ApiError

text \<open>Truthiness, and the operator \<open>a || b\<close>.\<close>

fun truthy :: "jsval \<Rightarrow> bool" where
  "truthy Undefined = False"
| "truthy Null = False"
| "truthy (Bool b) = b"
| "truthy (Num n) = (n \<noteq> 0)"
| "truthy (Str s) = (s \<noteq> [])"
| "truthy (Arr xs) = True"
| "truthy (Obj kvs) = True"

definition or_else :: "jsval \<Rightarrow> jsval \<Rightarrow> jsval" where
  "or_else a b = (if truthy a then a else b)"

text \<open>
  Property access \<open>item.k\<close> for the property names the program reads (none of them is
  defined on a prototype): a \<open>TypeError\<close> on \<open>null\<close> and \<open>undefined\<close>, the own property
  of an object, and \<open>undefined\<close> on every other value.
\<close>

fun get_prop :: "jsval \<Rightarrow> jsstring \<Rightarrow> exn + jsval" where
  "get_prop Undefined k = Inl TypeError"
| "get_prop Null k = Inl TypeError"
| "get_prop (Obj kvs) k = Inr (case map_of kvs k of None \<Rightarrow> Undefined | Some v \<Rightarrow> v)"
| "get_prop v k = Inr Undefined"

section \<open>types.ts\<close>

datatype DictationMode = Paragraph | Vocab | Idiom

text \<open>
  The interface \<open>DictationItem\<close>, with the types of its fields as parameters, because
  the program uses it at two types. The components receive it as declared: \<open>content\<close>
  a string, the optional fields a string or \<open>undefined\<close> (\<open>TypedItem\<close>). The object
  literal that \<open>analyzeMaterial\<close> builds (lines 128 to 136) is made from a payload typed
  \<open>any\<close>, so apart from \<open>id\<close> its fields hold whatever JSON value the payload had, or
  the default the source gives (\<open>AnyItem\<close>).
\<close>

record ('c, 'o, 'b) DictationItem =
  item_id :: jsstring
  content :: 'c
  subContent :: 'o
  meaning :: 'o
  example :: 'o
  clozeContent :: 'o
  isNewParagraph :: 'b

type_synonym TypedItem = "(jsstring, jsstring option, bool option) DictationItem"

type_synonym AnyItem = "(jsval, jsval, jsval) DictationItem"

datatype Role = User | Model

record ChatMessage =
  msg_id :: jsstring
  role :: Role
  msg_text :: "jsstring option"
  audioData :: "jsstring option"
  isAudio :: "bool option"

datatype RobotEmotion = Idle | Happy | Thinking | Speaking | Sad

datatype View = VSetup | VPractice | VWorksheet | VReport

datatype AudioLanguage = Mandarin | Cantonese

section \<open>The extraction service: analyzeMaterial\<close>

text \<open>
  The request of lines 16 to 122. The parts are the attachments in order, then the raw
  text if it is truthy, then the system instruction. The instruction text and the
  response schema are fixed by the mode alone, so the request carries the mode in their
  place.
\<close>

record FileData =
  mimeType :: jsstring
  data :: jsstring

datatype Part =
    InlineData jsstring jsstring
  | TextToProcess jsstring
  | SystemInstruction DictationMode

record ExtractionRequest =
  parts :: "Part list"
  itemSchema :: DictationMode

definition build_request :: "jsstring \<Rightarrow> FileData list \<Rightarrow> DictationMode \<Rightarrow> ExtractionRequest" where
  "build_request txt files mode =
     \<lparr> parts = map (\<lambda>f. InlineData (mimeType f) (data f)) files
               @ (if txt \<noteq> [] then [TextToProcess txt] else [])
               @ [SystemInstruction mode],
       itemSchema = mode \<rparr>"

text \<open>
  The response object of the backend: \<open>response.text\<close> is a string or \<open>undefined\<close>.
  The backend itself is the environment: a function from the request to a rejection
  (\<open>Inl\<close>) or a response (\<open>Inr\<close>). \<open>JSON.parse\<close> is the host's: a function from
  the text to a \<open>SyntaxError\<close> or a value.
\<close>

record Response =
  resp_text :: "jsstring option"

definition jsonText :: "Response \<Rightarrow> jsstring" where
  "jsonText response = (case resp_text response of
       None \<Rightarrow> ascii ''[]''
     | Some t \<Rightarrow> if t \<noteq> [] then t else ascii ''[]'')"

text \<open>The callback of \<open>rawItems.map\<close>, lines 128 to 136. Reading \<open>item.content\<close> comes
  first and throws on a \<open>null\<close> element; after it no read can throw.\<close>

definition read_prop :: "jsval \<Rightarrow> string \<Rightarrow> jsval" where
  "read_prop item k = (case get_prop item (ascii k) of Inl e \<Rightarrow> Undefined | Inr v \<Rightarrow> v)"

definition mapItem :: "jsval \<Rightarrow> nat \<Rightarrow> exn + AnyItem" where
  "mapItem item index =
     (case get_prop item (ascii ''content'') of
        Inl e \<Rightarrow> Inl e
      | Inr c \<Rightarrow> Inr \<lparr>
          item_id = toString index,
          content = c,
          subContent = or_else (read_prop item ''subContent'') (or_else (read_prop item ''pinyin'') (Str [])),
          meaning = or_else (read_prop item ''meaning'') (Str []),
          example = or_else (read_prop item ''example'') (Str []),
          clozeContent = or_else (read_prop item ''clozeContent'') (Str []),
          isNewParagraph = or_else (read_prop item ''newParagraph'') (Bool False) \<rparr>)"

text \<open>\<open>Array.prototype.map\<close> with a callback that may throw: the first exception
  ends the loop. The second argument is the index of the head.\<close>

fun mapItems :: "jsval list \<Rightarrow> nat \<Rightarrow> exn + AnyItem list" where
  "mapItems [] index = Inr []"
| "mapItems (item # rest) index =
     (case mapItem item index of
        Inl e \<Rightarrow> Inl e
      | Inr m \<Rightarrow> (case mapItems rest (Suc index) of
                    Inl e \<Rightarrow> Inl e
                  | Inr ms \<Rightarrow> Inr (m # ms)))"

text \<open>\<open>rawItems.map(...)\<close>: only an array has the method \<open>map\<close>; on any other parsed
  value the call is a \<open>TypeError\<close>.\<close>

fun map_rawItems :: "jsval \<Rightarrow> exn + AnyItem list" where
  "map_rawItems (Arr items) = mapItems items 0"
| "map_rawItems v = Inl TypeError"

text \<open>The body of the \<open>try\<close> block, and the function with its \<open>catch\<close>, which returns
  \<open>[]\<close>. The result is the settled promise: \<open>Inl\<close> a rejection, \<open>Inr\<close> the value.\<close>

definition analyzeMaterial_try ::
  "(jsstring \<Rightarrow> exn + jsval) \<Rightarrow> (ExtractionRequest \<Rightarrow> exn + Response) \<Rightarrow>
   jsstring \<Rightarrow> FileData list \<Rightarrow> DictationMode \<Rightarrow> exn + AnyItem list" where
  "analyzeMaterial_try JSON_parse generateContent txt files mode =
     (case generateContent (build_request txt files mode) of
        Inl e \<Rightarrow> Inl e
      | Inr response \<Rightarrow>
          (case JSON_parse (jsonText response) of
             Inl e \<Rightarrow> Inl e
           | Inr rawItems \<Rightarrow> map_rawItems rawItems))"

definition analyzeMaterial ::
  "(jsstring \<Rightarrow> exn + jsval) \<Rightarrow> (ExtractionRequest \<Rightarrow> exn + Response) \<Rightarrow>
   jsstring \<Rightarrow> FileData list \<Rightarrow> DictationMode \<Rightarrow> exn + AnyItem list" where
  "analyzeMaterial JSON_parse generateContent txt files mode =
     (case analyzeMaterial_try JSON_parse generateContent txt files mode of
        Inl error \<Rightarrow> Inr []
      | Inr items \<Rightarrow> Inr items)"

text \<open>The ways the \<open>try\<close> block can throw, read off the code above: the awaited call
  rejects (transport), \<open>JSON.parse\<close> throws (unparseable response), or the parsed payload
  is not an array or has an element whose property cannot be read (malformed payload).\<close>

definition extraction_fails ::
  "(jsstring \<Rightarrow> exn + jsval) \<Rightarrow> (ExtractionRequest \<Rightarrow> exn + Response) \<Rightarrow>
   jsstring \<Rightarrow> FileData list \<Rightarrow> DictationMode \<Rightarrow> bool" where
  "extraction_fails JSON_parse generateContent txt files mode =
     (case generateContent (build_request txt files mode) of
        Inl e \<Rightarrow> True
      | Inr response \<Rightarrow>
          (case JSON_parse (jsonText response) of
             Inl e \<Rightarrow> True
           | Inr (Arr items) \<Rightarrow> Null \<in> set items \<or> Undefined \<in> set items
           | Inr v \<Rightarrow> True))"

text \<open>A value is defined if it is neither \<open>undefined\<close> nor \<open>null\<close>; it is a non-empty
  string if it is a string other than \<open>""\<close>.\<close>

definition is_defined :: "jsval \<Rightarrow> bool" where
  "is_defined v = (v \<noteq> Undefined \<and> v \<noteq> Null)"

definition nonempty_string :: "jsval \<Rightarrow> bool" where
  "nonempty_string v = (case v of Str s \<Rightarrow> s \<noteq> [] | _ \<Rightarrow> False)"

text \<open>A payload whose elements supply ids of their own: \<open>with_id v item\<close> is the object
  \<open>item\<close> with the property \<open>id\<close> set to \<open>v\<close>, and \<open>supply_ids f\<close> changes a parser so
  that the element at position \<open>i\<close> of a parsed array has the id \<open>f i\<close>.\<close>

definition with_id :: "jsval \<Rightarrow> jsval \<Rightarrow> jsval" where
  "with_id v item = (case item of Obj kvs \<Rightarrow> Obj ((ascii ''id'', v) # kvs) | _ \<Rightarrow> item)"

fun with_ids :: "(nat \<Rightarrow> jsval) \<Rightarrow> nat \<Rightarrow> jsval list \<Rightarrow> jsval list" where
  "with_ids f index [] = []"
| "with_ids f index (item # rest) = with_id (f index) item # with_ids f (Suc index) rest"

definition supply_ids ::
  "(nat \<Rightarrow> jsval) \<Rightarrow> (jsstring \<Rightarrow> exn + jsval) \<Rightarrow> jsstring \<Rightarrow> exn + jsval" where
  "supply_ids f JSON_parse s =
     (case JSON_parse s of
        Inr (Arr items) \<Rightarrow> Inr (Arr (with_ids f 0 items))
      | r \<Rightarrow> r)"

section \<open>The dialogue service: chatWithAssistant\<close>

text \<open>Template literals turn \<open>undefined\<close> into the text \<open>undefined\<close>. A line feed is
  the code unit 10.\<close>

definition template :: "jsstring option \<Rightarrow> jsstring" where
  "template v = (case v of None \<Rightarrow> ascii ''undefined'' | Some s \<Rightarrow> s)"

definition nl :: jsstring where
  "nl = [0x0A]"

record HistoryEntry =
  h_role :: Role
  h_text :: jsstring

definition role_string :: "Role \<Rightarrow> jsstring" where
  "role_string r = (case r of User \<Rightarrow> ascii ''user'' | Model \<Rightarrow> ascii ''model'')"

text \<open>The prompt of lines 179 to 189; \<open>context\<close> is an optional parameter.\<close>

definition chat_prompt :: "HistoryEntry list \<Rightarrow> jsstring \<Rightarrow> jsstring option \<Rightarrow> jsstring" where
  "chat_prompt history currentMessage context =
     nl @ ascii ''    You are a friendly, encouraging robot assistant helping a child study Chinese dictation.''
     @ nl @ ascii ''    Context: ''
     @ (case context of
          None \<Rightarrow> ascii ''No specific list.''
        | Some c \<Rightarrow> if c \<noteq> [] then c else ascii ''No specific list.'')
     @ nl @ ascii ''    ''
     @ nl @ ascii ''    Current Chat History:''
     @ nl @ ascii ''    '' @ join nl (map (\<lambda>h. role_string (h_role h) @ ascii '': '' @ h_text h) history)
     @ nl @ ascii ''    ''
     @ nl @ ascii ''    User: '' @ currentMessage
     @ nl @ ascii ''    ''
     @ nl @ ascii ''    Response (Keep it short, encouraging. Use Traditional Chinese):''
     @ nl @ ascii ''    ''"

text \<open>The two fixed replies: the default of line 196 (three code units, "keep it up!")
  and the fallback of line 199 (fourteen code units, "a small problem came up, let us
  keep working!").\<close>

definition default_reply :: jsstring where
  "default_reply = [0x52A0, 0x6CB9, 0xFF01]"

definition fallback_reply :: jsstring where
  "fallback_reply = [0x51FA, 0x4E86, 0x9EDE, 0x5C0F, 0x554F, 0x984C, 0xFF0C,
                     0x6211, 0x5011, 0x7E7C, 0x7E8C, 0x52AA, 0x529B, 0xFF01]"

definition chatWithAssistant ::
  "(jsstring \<Rightarrow> exn + Response) \<Rightarrow> HistoryEntry list \<Rightarrow> jsstring \<Rightarrow> jsstring option \<Rightarrow>
   exn + jsstring" where
  "chatWithAssistant generateContent history currentMessage context =
     (case generateContent (chat_prompt history currentMessage context) of
        Inl error \<Rightarrow> Inr fallback_reply
      | Inr response \<Rightarrow>
          Inr (case resp_text response of
                 None \<Rightarrow> default_reply
               | Some t \<Rightarrow> if t \<noteq> [] then t else default_reply))"

section \<open>The practice session component\<close>

subsection \<open>State and flow: handleNext\<close>

datatype Stage = Reading | Revealed

text \<open>The state hooks of the component (lines 252 to 265).\<close>

record PracticeState =
  currentIndex :: nat
  stage :: Stage
  robotEmotion :: RobotEmotion
  messages :: "ChatMessage list"
  chatInput :: jsstring
  isListening :: bool
  inputLang :: jsstring

text \<open>The greeting of line 258 and the congratulation of line 354 ("congratulations, you
  have finished all the dictation", ending in an emoji that takes two code units).\<close>

definition greeting :: jsstring where
  "greeting = [0x4F60, 0x597D, 0xFF01, 0x6211, 0x662F, 0x4F60, 0x7684, 0x9ED8, 0x66F8, 0x5C0F,
               0x52A9, 0x624B, 0x3002, 0x6E96, 0x5099, 0x597D, 0x4E86, 0x55CE, 0xFF1F, 0x9EDE,
               0x64CA, 0x64AD, 0x653E, 0x6309, 0x9215, 0x958B, 0x59CB, 0x5427, 0xFF01]"

definition congratulation :: jsstring where
  "congratulation = [0x606D, 0x559C, 0x4F60, 0xFF01, 0x5B8C, 0x6210, 0x4E86, 0x6240, 0x6709,
                     0x9ED8, 0x66F8, 0x5167, 0x5BB9, 0xFF01, 0xD83C, 0xDF89]"

definition initial_state :: PracticeState where
  "initial_state =
     \<lparr> currentIndex = 0, stage = Reading, robotEmotion = Idle,
       messages = [\<lparr> msg_id = ascii ''1'', role = Model, msg_text = Some greeting,
                     audioData = None, isAudio = None \<rparr>],
       chatInput = [], isListening = False, inputLang = ascii ''zh-HK'' \<rparr>"

text \<open>\<open>handleNext\<close>, lines 343 to 358. \<open>now\<close> is the value of \<open>Date.now()\<close>. The
  comparison is the source's, on integers: \<open>items.length - 1\<close> is \<open>-1\<close> for an empty
  list. The result is the state after all the updates of the handler;
  \<open>congratulation_message\<close> is the message object of line 354.\<close>

definition congratulation_message :: "nat \<Rightarrow> ChatMessage" where
  "congratulation_message now =
     \<lparr> msg_id = toString now, role = Model, msg_text = Some congratulation,
       audioData = None, isAudio = None \<rparr>"

definition handleNext :: "'i list \<Rightarrow> nat \<Rightarrow> PracticeState \<Rightarrow> PracticeState" where
  "handleNext items now s =
     (if stage s = Reading then s\<lparr>stage := Revealed\<rparr>
      else if int (currentIndex s) < int (length items) - 1 then
        s\<lparr>currentIndex := currentIndex s + 1, stage := Reading, robotEmotion := Idle\<rparr>
      else
        s\<lparr>messages := messages s @ [congratulation_message now], robotEmotion := Happy\<rparr>)"

text \<open>Several calls of \<open>handleNext\<close> one after the other, at the given times.\<close>

fun handleNext_calls :: "'i list \<Rightarrow> nat list \<Rightarrow> PracticeState \<Rightarrow> PracticeState" where
  "handleNext_calls items [] s = s"
| "handleNext_calls items (now # later) s = handleNext_calls items later (handleNext items now s)"

text \<open>The effect of lines 276 to 279 depends on \<open>currentIndex\<close>: after a commit whose
  index differs from the one of the commit before, it sets the stage to \<open>reading\<close>.\<close>

definition stage_reset_effect :: "PracticeState \<Rightarrow> PracticeState \<Rightarrow> PracticeState" where
  "stage_reset_effect prev s =
     (if currentIndex s \<noteq> currentIndex prev then s\<lparr>stage := Reading\<rparr> else s)"

text \<open>The states that are rendered after one click on the button of \<open>handleNext\<close>. The
  updates of one event handler are applied together and rendered once; if the index has
  changed the effect then runs, and the state with its update is the second element. If
  the effect does not run, or its update changes nothing, nothing more is rendered, and
  the second element repeats the first.\<close>

definition click_next :: "'i list \<Rightarrow> nat \<Rightarrow> PracticeState \<Rightarrow> PracticeState list" where
  "click_next items now s =
     [handleNext items now s, stage_reset_effect s (handleNext items now s)]"

text \<open>How often the stage becomes \<open>reading\<close> along a sequence of rendered states: the
  number of steps from a state whose stage is not \<open>reading\<close> to one whose stage is.\<close>

fun becomes_reading :: "PracticeState list \<Rightarrow> nat" where
  "becomes_reading (a # b # cs) =
     (if stage a \<noteq> Reading \<and> stage b = Reading then 1 else 0) + becomes_reading (b # cs)"
| "becomes_reading cs = 0"

subsection \<open>Speech output: speakText and handlePlayAudio\<close>

text \<open>\<open>window.speechSynthesis\<close> is absent (\<open>None\<close>) or gives its list of voices; only the
  language tag of a voice is read.\<close>

record Voice =
  voice_lang :: jsstring

record Window =
  speechSynthesis :: "Voice list option"

record Utterance =
  utt_text :: jsstring
  utt_voice :: "Voice option"
  utt_lang :: jsstring
  utt_rate :: rat

text \<open>\<open>String.prototype.includes\<close>.\<close>

fun str_includes :: "jsstring \<Rightarrow> jsstring \<Rightarrow> bool" where
  "str_includes [] sub = (sub = [])"
| "str_includes (c # cs) sub = (take (length sub) (c # cs) = sub \<or> str_includes cs sub)"

text \<open>What the handlers do to the world, in order. A timer holds its callback, which in
  this component is always a call of \<open>speakText\<close>, and its delay in milliseconds.\<close>

datatype Callback = SpeakLater jsstring bool

datatype Effect =
    SetRobotEmotion RobotEmotion
  | SynthCancel
  | SynthSpeak Utterance
  | Alert jsstring
  | SetTimeout Callback nat

text \<open>The notice of line 319 ("your browser does not support the speech function").\<close>

definition tts_notice :: jsstring where
  "tts_notice = [0x4F60, 0x7684, 0x700F, 0x89BD, 0x5668, 0x4E0D, 0x652F, 0x6301, 0x8A9E, 0x97F3,
                 0x529F, 0x80FD] @ ascii '' (Browser TTS not supported)''"

text \<open>\<open>speakText\<close>, lines 283 to 321: the effects, and the exception if the promise
  rejects. When the language is Cantonese the first branch is taken also without
  \<open>speechSynthesis\<close>, and \<open>window.speechSynthesis.cancel()\<close> is then a \<open>TypeError\<close>.\<close>

definition speakText ::
  "Window \<Rightarrow> AudioLanguage \<Rightarrow> jsstring \<Rightarrow> bool \<Rightarrow> Effect list \<times> exn option" where
  "speakText window audioLanguage txt isSlow =
     (if audioLanguage = Cantonese \<or> speechSynthesis window \<noteq> None then
        (case speechSynthesis window of
           None \<Rightarrow> ([SetRobotEmotion Speaking], Some TypeError)
         | Some voices \<Rightarrow>
             let cantoneseVoice =
                   find (\<lambda>v. str_includes (voice_lang v) (ascii ''HK'')
                            \<or> str_includes (voice_lang v) (ascii ''yue'')) voices;
                 mandarinVoice =
                   find (\<lambda>v. str_includes (voice_lang v) (ascii ''CN'')
                            \<or> str_includes (voice_lang v) (ascii ''zh'')) voices;
                 rate = (if isSlow then 7 / 10 else 9 / 10);
                 utterance =
                   (if audioLanguage = Cantonese \<and> cantoneseVoice \<noteq> None
                    then \<lparr> utt_text = txt, utt_voice = cantoneseVoice,
                           utt_lang = ascii ''zh-HK'', utt_rate = rate \<rparr>
                    else \<lparr> utt_text = txt, utt_voice = mandarinVoice,
                           utt_lang = ascii ''zh-CN'', utt_rate = rate \<rparr>)
             in ([SetRobotEmotion Speaking, SynthCancel, SynthSpeak utterance], None))
      else ([SetRobotEmotion Speaking, SetRobotEmotion Idle, Alert tts_notice], None))"

text \<open>\<open>items[currentIndex]\<close> is \<open>undefined\<close> out of range.\<close>

definition currentItem :: "'i list \<Rightarrow> PracticeState \<Rightarrow> 'i option" where
  "currentItem items s =
     (if currentIndex s < length items then Some (items ! currentIndex s) else None)"

text \<open>The prefix of line 333 ("the meaning is:").\<close>

definition meaning_prefix :: jsstring where
  "meaning_prefix = [0x610F, 0x601D, 0x662F, 0xFF1A]"

text \<open>\<open>handlePlayAudio\<close>, lines 323 to 339. \<open>speakText\<close> has no \<open>await\<close> inside, so
  awaiting it waits for no speech to end; a rejection is thrown again and ends the
  handler before the timer is set.\<close>

definition handlePlayAudio ::
  "Window \<Rightarrow> AudioLanguage \<Rightarrow> DictationMode \<Rightarrow> TypedItem option \<Rightarrow> Effect list \<times> exn option" where
  "handlePlayAudio window audioLanguage mode item =
     (case item of
        None \<Rightarrow> ([], Some TypeError)
      | Some it \<Rightarrow>
          if mode = Paragraph then speakText window audioLanguage (content it) True
          else if mode = Idiom then
            (case speakText window audioLanguage (content it) False of
               (es, Some e) \<Rightarrow> (es, Some e)
             | (es, None) \<Rightarrow>
                 (es @ [SetTimeout (SpeakLater (meaning_prefix @ template (meaning it)) False) 2000],
                  None))
          else speakText window audioLanguage (content it) False)"

text \<open>The effects with the time, in milliseconds after the click, at which each is
  issued: at once, or when the timer fires and runs its callback.\<close>

fun timeline :: "Window \<Rightarrow> AudioLanguage \<Rightarrow> Effect list \<Rightarrow> (nat \<times> Effect) list" where
  "timeline window audioLanguage [] = []"
| "timeline window audioLanguage (SetTimeout (SpeakLater txt isSlow) delay # es) =
     timeline window audioLanguage es
     @ map (Pair delay) (fst (speakText window audioLanguage txt isSlow))"
| "timeline window audioLanguage (e # es) = (0, e) # timeline window audioLanguage es"

fun utterances :: "(nat \<times> Effect) list \<Rightarrow> (nat \<times> Utterance) list" where
  "utterances [] = []"
| "utterances ((t, SynthSpeak u) # es) = (t, u) # utterances es"
| "utterances (e # es) = utterances es"

definition play_action ::
  "Window \<Rightarrow> AudioLanguage \<Rightarrow> DictationMode \<Rightarrow> TypedItem option \<Rightarrow> (nat \<times> Utterance) list" where
  "play_action window audioLanguage mode item =
     utterances (timeline window audioLanguage (fst (handlePlayAudio window audioLanguage mode item)))"

subsection \<open>Speech input: the result handler\<close>

text \<open>A recognition event carries results, and each result its alternatives, best
  first. \<open>result[0].transcript\<close> is a \<open>TypeError\<close> on a result without alternatives.\<close>

record SpeechRecognitionAlternative =
  transcript :: jsstring

type_synonym SpeechRecognitionResult = "SpeechRecognitionAlternative list"

record SpeechRecognitionEvent =
  results :: "SpeechRecognitionResult list"

fun top_transcripts :: "SpeechRecognitionResult list \<Rightarrow> exn + jsstring list" where
  "top_transcripts [] = Inr []"
| "top_transcripts ([] # rs) = Inl TypeError"
| "top_transcripts ((a # alts) # rs) =
     (case top_transcripts rs of
        Inl e \<Rightarrow> Inl e
      | Inr ts \<Rightarrow> Inr (transcript a # ts))"

text \<open>\<open>recognition.onresult\<close>, lines 387 to 392.\<close>

definition onresult :: "SpeechRecognitionEvent \<Rightarrow> PracticeState \<Rightarrow> exn + PracticeState" where
  "onresult event s =
     (case top_transcripts (results event) of
        Inl e \<Rightarrow> Inl e
      | Inr ts \<Rightarrow> Inr (s\<lparr>chatInput := join [] ts\<rparr>))"

text \<open>A sequence of result events, handled one after the other. An exception that leaves
  an event handler is not caught by the program and changes no state.\<close>

fun result_events :: "SpeechRecognitionEvent list \<Rightarrow> PracticeState \<Rightarrow> PracticeState" where
  "result_events [] s = s"
| "result_events (event # events) s =
     result_events events (case onresult event s of Inl e \<Rightarrow> s | Inr s' \<Rightarrow> s')"

section \<open>Setup.tsx: handleProcess\<close>

text \<open>\<open>String.prototype.trim\<close> removes the white space and line terminators of
  ECMAScript from both ends.\<close>

definition isWhiteSpace :: "16 word \<Rightarrow> bool" where
  "isWhiteSpace c =
     (c \<in> set [0x0009, 0x000A, 0x000B, 0x000C, 0x000D, 0x0020, 0x00A0, 0x1680,
                0x2028, 0x2029, 0x202F, 0x205F, 0x3000, 0xFEFF]
      \<or> (0x2000 \<le> c \<and> c \<le> 0x200A))"

definition trim :: "jsstring \<Rightarrow> jsstring" where
  "trim s = rev (dropWhile isWhiteSpace (rev (dropWhile isWhiteSpace s)))"

text \<open>The state hooks of the component. An attachment carries its file name besides
  the two fields the service reads.\<close>

record SetupFile = FileData +
  file_name :: jsstring

record SetupState =
  setup_text :: jsstring
  setup_mode :: DictationMode
  setup_language :: AudioLanguage
  loading :: bool
  files :: "SetupFile list"

datatype TargetView = TPractice | TWorksheet

text \<open>What one run of \<open>handleProcess\<close> does, in order: the state updates, the call of
  the service and the call of the \<open>onStart\<close> property. The service is a parameter; if
  its promise rejected, the run would end at the \<open>await\<close>.\<close>

datatype 'i SetupEffect =
    SetLoading bool
  | Call_analyzeMaterial jsstring "FileData list" DictationMode
  | Call_onStart "'i list" DictationMode AudioLanguage TargetView

definition handleProcess ::
  "(jsstring \<Rightarrow> FileData list \<Rightarrow> DictationMode \<Rightarrow> exn + 'i list) \<Rightarrow>
   SetupState \<Rightarrow> TargetView \<Rightarrow> 'i SetupEffect list" where
  "handleProcess analyze st targetView =
     (if trim (setup_text st) = [] \<and> length (files st) = 0 then []
      else
        [SetLoading True,
         Call_analyzeMaterial (setup_text st) (map FileData.truncate (files st)) (setup_mode st)]
        @ (case analyze (setup_text st) (map FileData.truncate (files st)) (setup_mode st) of
             Inl e \<Rightarrow> []
           | Inr items \<Rightarrow>
               [SetLoading False,
                Call_onStart items (setup_mode st) (setup_language st) targetView]))"

section \<open>App.tsx: handleStart\<close>

text \<open>\<open>handleStart\<close> never looks inside an item, so the type of the items is a
  parameter. The result is the next state and the alerts shown. The target view is an
  optional parameter whose default is the practice view.\<close>

record 'i AppState =
  view :: View
  mode :: DictationMode
  audioLanguage :: AudioLanguage
  dictationList :: "'i list"
  app_currentIndex :: nat

definition view_of :: "TargetView \<Rightarrow> View" where
  "view_of t = (case t of TPractice \<Rightarrow> VPractice | TWorksheet \<Rightarrow> VWorksheet)"

text \<open>The notice of line 19: seventeen Chinese code units and a full stop ("could not
  extract content, please check that the file is clear"), then its English gloss.\<close>

definition no_content_notice :: jsstring where
  "no_content_notice =
     [0x672A, 0x80FD, 0x63D0, 0x53D6, 0x5230, 0x5167, 0x5BB9, 0xFF0C, 0x8ACB, 0x6AA2,
      0x67E5, 0x6587, 0x4EF6, 0x662F, 0x5426, 0x6E05, 0x6670, 0x3002]
     @ ascii ''(Could not extract content, please check your files)''"

definition handleStart ::
  "'i AppState \<Rightarrow> 'i list \<Rightarrow> DictationMode \<Rightarrow> AudioLanguage \<Rightarrow> TargetView option \<Rightarrow>
   'i AppState \<times> jsstring list" where
  "handleStart appState items mode' language targetView =
     (if length items = 0 then (appState, [no_content_notice])
      else (appState\<lparr> view := view_of (case targetView of None \<Rightarrow> TPractice | Some t \<Rightarrow> t),
                      dictationList := items,
                      mode := mode',
                      audioLanguage := language,
                      app_currentIndex := 0 \<rparr>, []))"

text \<open>The effects applied to the state of the two components, \<open>onStart\<close> being
  \<open>handleStart\<close> (App.tsx, line 43). The third component collects the alerts.\<close>

fun apply_effect ::
  "SetupState \<times> 'i AppState \<times> jsstring list \<Rightarrow> 'i SetupEffect \<Rightarrow>
   SetupState \<times> 'i AppState \<times> jsstring list" where
  "apply_effect (st, app, alerts) (SetLoading b) = (st\<lparr>loading := b\<rparr>, app, alerts)"
| "apply_effect (st, app, alerts) (Call_analyzeMaterial t fs m) = (st, app, alerts)"
| "apply_effect (st, app, alerts) (Call_onStart items m l v) =
     (case handleStart app items m l (Some v) of
        (app', shown) \<Rightarrow> (st, app', alerts @ shown))"

definition process_action ::
  "(jsstring \<Rightarrow> FileData list \<Rightarrow> DictationMode \<Rightarrow> exn + 'i list) \<Rightarrow>
   SetupState \<times> 'i AppState \<Rightarrow> TargetView \<Rightarrow> SetupState \<times> 'i AppState \<times> jsstring list" where
  "process_action analyze s targetView =
     foldl apply_effect (fst s, snd s, []) (handleProcess analyze (fst s) targetView)"

section \<open>Example inputs\<close>

text \<open>Backends: one that rejects every request and one that answers every request with
  a given text.\<close>

definition rejecting :: "ExtractionRequest \<Rightarrow> exn + Response" where
  "rejecting request = Inl ApiError"

definition answering :: "jsstring \<Rightarrow> ExtractionRequest \<Rightarrow> exn + Response" where
  "answering t request = Inr \<lparr> resp_text = Some t \<rparr>"

text \<open>Response texts: a payload that follows the schema of the paragraph mode, in which
  \<open>meaning\<close> is not required; a payload that is an object instead of an array; a payload
  whose elements carry an \<open>id\<close>; and a refusal in prose.\<close>

definition paragraph_payload :: jsstring where
  \<open>paragraph_payload =
     ascii ''[{"content":"The sky is clear.","clozeContent":"The ______ is ______.","newParagraph":true}]''\<close>

definition object_payload :: jsstring where
  \<open>object_payload = ascii ''{"items":[]}''\<close>

definition ids_payload :: jsstring where
  \<open>ids_payload =
     ascii ''[{"id":"x","content":"lion","meaning":"a big cat"},{"id":"x","content":"tiger","meaning":"a striped cat"}]''\<close>

definition prose_reply :: jsstring where
  "prose_reply = ascii ''Sorry, I cannot help.''"

text \<open>\<open>JSON.parse\<close> on these texts and on \<open>[]\<close>. No example uses another text.\<close>

definition example_parse :: "jsstring \<Rightarrow> exn + jsval" where
  "example_parse s =
     (if s = ascii ''[]'' then Inr (Arr [])
      else if s = paragraph_payload then
        Inr (Arr [Obj [(ascii ''content'', Str (ascii ''The sky is clear.'')),
                       (ascii ''clozeContent'', Str (ascii ''The ______ is ______.'')),
                       (ascii ''newParagraph'', Bool True)]])
      else if s = object_payload then Inr (Obj [(ascii ''items'', Arr [])])
      else if s = ids_payload then
        Inr (Arr [Obj [(ascii ''id'', Str (ascii ''x'')),
                       (ascii ''content'', Str (ascii ''lion'')),
                       (ascii ''meaning'', Str (ascii ''a big cat''))],
                  Obj [(ascii ''id'', Str (ascii ''x'')),
                       (ascii ''content'', Str (ascii ''tiger'')),
                       (ascii ''meaning'', Str (ascii ''a striped cat''))]])
      else Inl SyntaxError)"

text \<open>The two items of the spec's first scenario ("lion", "tiger"), the state at the end
  of that scenario (reveal, advance, reveal, advance, at the times 1 to 4), and an idiom
  with its meaning.\<close>

definition scenario_items :: "TypedItem list" where
  "scenario_items =
     [\<lparr> item_id = ascii ''0'', content = [0x7345, 0x5B50], subContent = None, meaning = None,
         example = None, clozeContent = None, isNewParagraph = None \<rparr>,
      \<lparr> item_id = ascii ''1'', content = [0x8001, 0x864E], subContent = None, meaning = None,
         example = None, clozeContent = None, isNewParagraph = None \<rparr>]"

definition scenario_end :: PracticeState where
  "scenario_end =
     handleNext scenario_items 4 (handleNext scenario_items 3
       (handleNext scenario_items 2 (handleNext scenario_items 1 initial_state)))"

definition idiom_item :: TypedItem where
  "idiom_item =
     \<lparr> item_id = ascii ''0'', content = [0x756B, 0x86C7, 0x6DFB, 0x8DB3], subContent = None,
       meaning = Some [0x591A, 0x6B64, 0x4E00, 0x8209], example = None, clozeContent = None,
       isNewParagraph = None \<rparr>"

text \<open>A browser without speech synthesis and one with a single Cantonese voice.\<close>

definition silent_window :: Window where
  "silent_window = \<lparr> speechSynthesis = None \<rparr>"

definition cantonese_window :: Window where
  "cantonese_window = \<lparr> speechSynthesis = Some [\<lparr> voice_lang = ascii ''zh-HK'' \<rparr>] \<rparr>"

text \<open>The two result events of the spec's third scenario: the top transcripts are two
  and then three code units ("hello", then "how are you"), the second extending the
  first.\<close>

definition scenario_events :: "SpeechRecognitionEvent list" where
  "scenario_events =
     [\<lparr> results = [[\<lparr> transcript = [0x4F60, 0x597D] \<rparr>]] \<rparr>,
      \<lparr> results = [[\<lparr> transcript = [0x4F60, 0x597D, 0x55CE] \<rparr>]] \<rparr>]"

text \<open>A setup form that holds two blanks and no attachment, and the application state
  at its start (App.tsx, lines 9 to 15).\<close>

definition blank_setup :: SetupState where
  "blank_setup = \<lparr> setup_text = ascii ''  '', setup_mode = Vocab, setup_language = Cantonese,
                    loading = False, files = [] \<rparr>"

definition initial_appState :: "'i AppState" where
  "initial_appState = \<lparr> view = VSetup, mode = Vocab, audioLanguage = Cantonese,
                         dictationList = [], app_currentIndex = 0 \<rparr>"

section \<open>Properties of the extraction service\<close>

lemma mapItem_throws:
  "(\<exists>e. mapItem item i = Inl e) \<longleftrightarrow> item = Null \<or> item = Undefined"
  by (cases item) (simp_all add: mapItem_def)

lemma mapItems_throws:
  "(\<exists>e. mapItems raw k = Inl e) \<longleftrightarrow> Null \<in> set raw \<or> Undefined \<in> set raw"
proof (induction raw arbitrary: k)
  case Nil
  then show ?case by simp
next
  case (Cons item rest)
  show ?case
  proof (cases "mapItem item k")
    case (Inl e)
    then show ?thesis using mapItem_throws [of item k] by auto
  next
    case (Inr it)
    then have "item \<noteq> Null \<and> item \<noteq> Undefined"
      using mapItem_throws [of item k] by auto
    then show ?thesis
      using Inr Cons.IH [of "Suc k"] by (auto split: sum.splits)
  qed
qed

lemma map_rawItems_throws:
  "(\<exists>e. map_rawItems v = Inl e) \<longleftrightarrow>
   (case v of Arr raw \<Rightarrow> Null \<in> set raw \<or> Undefined \<in> set raw | _ \<Rightarrow> True)"
  by (cases v) (simp_all add: mapItems_throws)

text \<open>The predicate \<open>extraction_fails\<close> is exactly: the \<open>try\<close> block throws.\<close>

lemma extraction_fails_iff_throws:
  "extraction_fails P G t fs m \<longleftrightarrow> (\<exists>e. analyzeMaterial_try P G t fs m = Inl e)"
  unfolding extraction_fails_def analyzeMaterial_try_def
  by (auto simp: map_rawItems_throws split: sum.splits jsval.splits)

lemmas example_defs =
  example_parse_def paragraph_payload_def object_payload_def ids_payload_def prose_reply_def
  answering_def rejecting_def ascii_def

text \<open>
  Claim C2. For every raw text, attachment list and mode, and whatever the backend and
  the parser do, \<open>analyzeMaterial\<close> resolves to a list and never rejects; and if the
  extraction fails (the call rejects, the response does not parse, or the payload is
  malformed so that mapping it throws), the list is empty.
\<close>

theorem analyzeMaterial_failure_empty:
  "(\<exists>items. analyzeMaterial P G t fs m = Inr items)
   \<and> (extraction_fails P G t fs m \<longrightarrow> analyzeMaterial P G t fs m = Inr [])"
  using extraction_fails_iff_throws [of P G t fs m]
  by (auto simp: analyzeMaterial_def split: sum.splits)

text \<open>The three kinds of failure at concrete inputs: a rejected call, a reply in prose,
  and a payload that is an object.\<close>

theorem analyzeMaterial_failure_empty_witness:
  "extraction_fails example_parse rejecting [] [] Vocab
   \<and> analyzeMaterial example_parse rejecting [] [] Vocab = Inr []
   \<and> extraction_fails example_parse (answering prose_reply) [] [] Vocab
   \<and> analyzeMaterial example_parse (answering prose_reply) [] [] Vocab = Inr []
   \<and> extraction_fails example_parse (answering object_payload) [] [] Vocab
   \<and> analyzeMaterial example_parse (answering object_payload) [] [] Vocab = Inr []"
proof -
  have a: "extraction_fails example_parse rejecting [] [] Vocab"
    by (simp add: extraction_fails_def rejecting_def)
  have b: "extraction_fails example_parse (answering prose_reply) [] [] Vocab"
    by (simp add: extraction_fails_def example_defs jsonText_def)
  have c: "extraction_fails example_parse (answering object_payload) [] [] Vocab"
    by (simp add: extraction_fails_def example_defs jsonText_def)
  show ?thesis
    using a b c
      analyzeMaterial_failure_empty [of example_parse rejecting "[]" "[]" Vocab]
      analyzeMaterial_failure_empty [of example_parse "answering prose_reply" "[]" "[]" Vocab]
      analyzeMaterial_failure_empty [of example_parse "answering object_payload" "[]" "[]" Vocab]
    by simp
qed

subsection \<open>The fields of the returned items\<close>

lemma mapItem_fields:
  assumes "mapItem item i = Inr it"
  shows "it = \<lparr> item_id = toString i,
               content = read_prop item ''content'',
               subContent = or_else (read_prop item ''subContent'')
                                    (or_else (read_prop item ''pinyin'') (Str [])),
               meaning = or_else (read_prop item ''meaning'') (Str []),
               example = or_else (read_prop item ''example'') (Str []),
               clozeContent = or_else (read_prop item ''clozeContent'') (Str []),
               isNewParagraph = or_else (read_prop item ''newParagraph'') (Bool False) \<rparr>"
proof (cases "get_prop item (ascii ''content'')")
  case (Inl e)
  with assms show ?thesis by (simp add: mapItem_def)
next
  case (Inr c)
  then have "read_prop item ''content'' = c" by (simp add: read_prop_def)
  with assms Inr show ?thesis by (simp add: mapItem_def)
qed

lemma mapItems_nth:
  "mapItems raw k = Inr its \<Longrightarrow>
   length its = length raw \<and> (\<forall>i < length raw. mapItem (raw ! i) (k + i) = Inr (its ! i))"
proof (induction raw arbitrary: k its)
  case Nil
  then show ?case by simp
next
  case (Cons item rest)
  then obtain it its' where it: "mapItem item k = Inr it"
    and r: "mapItems rest (Suc k) = Inr its'" and its: "its = it # its'"
    by (auto split: sum.splits)
  from Cons.IH [OF r] have len: "length its' = length rest"
    and nth: "\<And>i. i < length rest \<Longrightarrow> mapItem (rest ! i) (Suc k + i) = Inr (its' ! i)"
    by auto
  show ?case
  proof (intro conjI allI impI)
    show "length its = length (item # rest)" using its len by simp
  next
    fix i
    assume "i < length (item # rest)"
    then show "mapItem ((item # rest) ! i) (k + i) = Inr (its ! i)"
      using it its nth by (cases i) simp_all
  qed
qed

text \<open>Every item that is returned is the image of the payload element at its position.\<close>

lemma analyzeMaterial_items:
  assumes "analyzeMaterial P G t fs m = Inr items" and "i < length items"
  shows "\<exists>response raw. G (build_request t fs m) = Inr response
           \<and> P (jsonText response) = Inr (Arr raw)
           \<and> length raw = length items
           \<and> mapItem (raw ! i) i = Inr (items ! i)"
proof -
  from assms have "items \<noteq> []" by auto
  with assms(1) have "analyzeMaterial_try P G t fs m = Inr items"
    by (auto simp: analyzeMaterial_def split: sum.splits)
  then obtain response v where g: "G (build_request t fs m) = Inr response"
    and p: "P (jsonText response) = Inr v" and mr: "map_rawItems v = Inr items"
    by (auto simp: analyzeMaterial_try_def split: sum.splits)
  from mr obtain raw where v: "v = Arr raw" and mi: "mapItems raw 0 = Inr items"
    by (cases v) simp_all
  from mapItems_nth [OF mi] assms(2)
  have "length raw = length items" "mapItem (raw ! i) i = Inr (items ! i)"
    by auto
  with g p v show ?thesis by auto
qed

lemma is_defined_or_else: "is_defined b \<Longrightarrow> is_defined (or_else a b)"
  by (cases a) (simp_all add: or_else_def is_defined_def)

text \<open>
  Claim C3, as stated, fails: \<open>content\<close> and \<open>meaning\<close> are not always non-empty strings
  after the mapping. In the paragraph mode the schema does not require \<open>meaning\<close>; for a
  payload that follows the schema and leaves it out, the returned item has the empty
  string as its \<open>meaning\<close>.
\<close>

theorem meaning_empty_counterexample:
  "analyzeMaterial example_parse (answering paragraph_payload) (ascii ''The sky is clear.'') []
     Paragraph
     = Inr [\<lparr> item_id = ascii ''0'', content = Str (ascii ''The sky is clear.''),
              subContent = Str [], meaning = Str [], example = Str [],
              clozeContent = Str (ascii ''The ______ is ______.''),
              isNewParagraph = Bool True \<rparr>]
   \<and> \<not> nonempty_string (Str [])"
  by (simp add: analyzeMaterial_def analyzeMaterial_try_def example_defs jsonText_def
      build_request_def mapItem_def read_prop_def or_else_def toString.simps digit_def
      nonempty_string_def)

text \<open>
  Claim C3, amended. For all modes and every item that extraction returns, the item is
  made from the payload element at its position as follows. \<open>meaning\<close>, \<open>example\<close> and
  \<open>clozeContent\<close> are the payload's value if that is truthy and the empty string
  otherwise; \<open>subContent\<close> is the payload's \<open>subContent\<close> if truthy, else its \<open>pinyin\<close> if
  truthy, else the empty string. So these four fields are never \<open>undefined\<close> or \<open>null\<close>,
  and each of them, \<open>meaning\<close> included, may be the empty string. \<open>content\<close> is the
  payload's value as it is, without any normalisation.
\<close>

theorem optional_fields_defaulted:
  assumes "analyzeMaterial P G t fs m = Inr items" and "i < length items"
  shows "\<exists>response raw. G (build_request t fs m) = Inr response
           \<and> P (jsonText response) = Inr (Arr raw)
           \<and> length raw = length items
           \<and> content (items ! i) = read_prop (raw ! i) ''content''
           \<and> subContent (items ! i) =
               or_else (read_prop (raw ! i) ''subContent'')
                       (or_else (read_prop (raw ! i) ''pinyin'') (Str []))
           \<and> meaning (items ! i) = or_else (read_prop (raw ! i) ''meaning'') (Str [])
           \<and> example (items ! i) = or_else (read_prop (raw ! i) ''example'') (Str [])
           \<and> clozeContent (items ! i) = or_else (read_prop (raw ! i) ''clozeContent'') (Str [])
           \<and> is_defined (subContent (items ! i)) \<and> is_defined (meaning (items ! i))
           \<and> is_defined (example (items ! i)) \<and> is_defined (clozeContent (items ! i))"
proof -
  from analyzeMaterial_items [OF assms] obtain response raw where
    g: "G (build_request t fs m) = Inr response"
    and p: "P (jsonText response) = Inr (Arr raw)"
    and len: "length raw = length items"
    and mi: "mapItem (raw ! i) i = Inr (items ! i)"
    by blast
  have d: "is_defined (Str [])" by (simp add: is_defined_def)
  from mapItem_fields [OF mi] have
    "content (items ! i) = read_prop (raw ! i) ''content''"
    "subContent (items ! i) =
       or_else (read_prop (raw ! i) ''subContent'')
               (or_else (read_prop (raw ! i) ''pinyin'') (Str []))"
    "meaning (items ! i) = or_else (read_prop (raw ! i) ''meaning'') (Str [])"
    "example (items ! i) = or_else (read_prop (raw ! i) ''example'') (Str [])"
    "clozeContent (items ! i) = or_else (read_prop (raw ! i) ''clozeContent'') (Str [])"
    by simp_all
  note eqs = this
  have "is_defined (subContent (items ! i))" "is_defined (meaning (items ! i))"
    "is_defined (example (items ! i))" "is_defined (clozeContent (items ! i))"
    unfolding eqs by (simp_all add: d is_defined_or_else)
  with g p len eqs show ?thesis
    by (intro exI [of _ response] exI [of _ raw] conjI)
qed

theorem optional_fields_defaulted_witness:
  "analyzeMaterial example_parse (answering ids_payload) [] [] Vocab
     = Inr [\<lparr> item_id = ascii ''0'', content = Str (ascii ''lion''), subContent = Str [],
              meaning = Str (ascii ''a big cat''), example = Str [], clozeContent = Str [],
              isNewParagraph = Bool False \<rparr>,
            \<lparr> item_id = ascii ''1'', content = Str (ascii ''tiger''), subContent = Str [],
              meaning = Str (ascii ''a striped cat''), example = Str [], clozeContent = Str [],
              isNewParagraph = Bool False \<rparr>]
   \<and> is_defined (Str []) \<and> is_defined (Str (ascii ''a striped cat''))"
proof -
  let ?items = "[\<lparr> item_id = ascii ''0'', content = Str (ascii ''lion''), subContent = Str [],
              meaning = Str (ascii ''a big cat''), example = Str [], clozeContent = Str [],
              isNewParagraph = Bool False \<rparr>,
            \<lparr> item_id = ascii ''1'', content = Str (ascii ''tiger''), subContent = Str [],
              meaning = Str (ascii ''a striped cat''), example = Str [], clozeContent = Str [],
              isNewParagraph = Bool False \<rparr>]"
  have h: "analyzeMaterial example_parse (answering ids_payload) [] [] Vocab = Inr ?items"
    by (simp add: analyzeMaterial_def analyzeMaterial_try_def example_defs jsonText_def
        build_request_def mapItem_def read_prop_def or_else_def toString.simps digit_def)
  have i: "1 < length ?items" by simp
  have d: "is_defined (Str []) \<and> is_defined (Str (ascii ''a striped cat''))"
    using optional_fields_defaulted [OF h i] by (simp add: is_defined_def)
  show ?thesis
    using h d by (simp only: simp_thms)
qed

subsection \<open>The ids of the returned items\<close>

lemma mapItem_id: "mapItem item i = Inr it \<Longrightarrow> item_id it = toString i"
  by (auto simp: mapItem_def split: sum.splits)

lemma upt_shift: "[k..<k + Suc n] = k # [Suc k..<Suc k + n]"
  by (simp add: upt_conv_Cons del: upt_Suc)

lemma mapItems_ids:
  "mapItems raw k = Inr its \<Longrightarrow> map item_id its = map toString [k..<k + length its]"
proof (induction raw arbitrary: k its)
  case Nil
  then show ?case by simp
next
  case (Cons item rest)
  then obtain it its' where it: "mapItem item k = Inr it"
    and r: "mapItems rest (Suc k) = Inr its'" and its: "its = it # its'"
    by (auto split: sum.splits)
  have "map item_id its' = map toString [Suc k..<Suc k + length its']"
    using Cons.IH [OF r] .
  moreover have "[k..<k + length its] = k # [Suc k..<Suc k + length its']"
    using its upt_shift [of k "length its'"] by simp
  ultimately show ?case
    using it its by (simp add: mapItem_id)
qed

lemma mapItem_with_id: "mapItem (with_id v item) i = mapItem item i"
  by (cases item) (simp_all add: with_id_def mapItem_def read_prop_def ascii_def)

lemma mapItems_with_ids: "mapItems (with_ids f k raw) k = mapItems raw k"
  by (induction raw arbitrary: k) (auto simp: mapItem_with_id split: sum.splits)

lemma try_ids:
  "analyzeMaterial_try P G t fs m = Inr items \<Longrightarrow>
   map item_id items = map toString [0..<length items]"
  using mapItems_ids [of _ 0 items]
  by (auto simp: analyzeMaterial_try_def split: sum.splits elim!: map_rawItems.elims)

lemma try_supply_ids:
  "analyzeMaterial_try (supply_ids f P) G t fs m = analyzeMaterial_try P G t fs m"
  by (auto simp: analyzeMaterial_try_def supply_ids_def mapItems_with_ids
      split: sum.splits jsval.splits)

text \<open>
  Claim C9. For every raw extraction response, the ids of the returned items are the
  decimal strings of their positions \<open>0, 1, 2, ...\<close> in the returned array; and an id
  supplied by the payload is ignored: whatever ids the elements of the payload carry,
  the result is the same.
\<close>

theorem ids_are_positions:
  "(\<exists>items. analyzeMaterial P G t fs m = Inr items
            \<and> map item_id items = map toString [0..<length items])
   \<and> analyzeMaterial (supply_ids f P) G t fs m = analyzeMaterial P G t fs m"
  using try_ids [of P G t fs m]
  by (auto simp: analyzeMaterial_def try_supply_ids split: sum.splits)


section \<open>Properties of the practice session\<close>

lemma handleNext_finished:
  assumes "stage s = Revealed" and "\<not> currentIndex s + 1 < length items"
  shows "handleNext items now s
         = s\<lparr>messages := messages s @ [congratulation_message now], robotEmotion := Happy\<rparr>"
  using assms by (auto simp: handleNext_def)

lemma handleNext_calls_finished:
  assumes "stage s = Revealed" and "\<not> currentIndex s + 1 < length items"
  shows "currentIndex (handleNext_calls items ts s) = currentIndex s
       \<and> stage (handleNext_calls items ts s) = Revealed
       \<and> messages (handleNext_calls items ts s) = messages s @ map congratulation_message ts"
  using assms
proof (induction ts arbitrary: s)
  case Nil
  then show ?case by simp
next
  case (Cons now later)
  let ?s' = "handleNext items now s"
  have s': "?s' = s\<lparr>messages := messages s @ [congratulation_message now], robotEmotion := Happy\<rparr>"
    using Cons.prems by (rule handleNext_finished)
  then have "stage ?s' = Revealed" "\<not> currentIndex ?s' + 1 < length items"
    using Cons.prems by simp_all
  from Cons.IH [OF this] show ?case
    by (simp add: s')
qed

text \<open>
  Claim C1, as stated, fails in its last part: after the last item a further call of
  advance is not a no-op. At the end of the spec's first scenario (two items, index 1,
  one congratulation appended) another call changes the state: it appends a second
  congratulation.
\<close>

theorem advance_after_finish_counterexample:
  "handleNext scenario_items 5 scenario_end \<noteq> scenario_end
   \<and> messages (handleNext scenario_items 5 scenario_end)
       = messages scenario_end @ [congratulation_message 5]
   \<and> messages scenario_end = messages initial_state @ [congratulation_message 4]"
  by (simp add: scenario_end_def handleNext_def initial_state_def scenario_items_def)

text \<open>
  Claim C1, amended. For every item list and every session state (so for every
  reachable one), a call of \<open>handleNext\<close> never decreases the current index. In the
  \<open>revealed\<close> stage it is the advance operation: when a next index exists, it increments
  the index by exactly one (and resets the stage); at the last item it leaves the index
  and the stage unchanged and appends exactly one congratulatory assistant message.
  Every further advance call again leaves the index unchanged and appends one more
  congratulatory message, so after \<open>n\<close> calls at the last item \<open>n\<close> messages have been
  appended.
\<close>

theorem handleNext_advance:
  "currentIndex s \<le> currentIndex (handleNext items now s)
   \<and> (stage s = Revealed \<and> currentIndex s + 1 < length items \<longrightarrow>
        handleNext items now s
        = s\<lparr>currentIndex := currentIndex s + 1, stage := Reading, robotEmotion := Idle\<rparr>)
   \<and> (stage s = Revealed \<and> \<not> currentIndex s + 1 < length items \<longrightarrow>
        handleNext items now s
        = s\<lparr>messages := messages s @ [congratulation_message now], robotEmotion := Happy\<rparr>
        \<and> currentIndex (handleNext_calls items ts s) = currentIndex s
        \<and> stage (handleNext_calls items ts s) = Revealed
        \<and> messages (handleNext_calls items ts s) = messages s @ map congratulation_message ts)"
proof (intro conjI impI)
  show "currentIndex s \<le> currentIndex (handleNext items now s)"
    by (simp add: handleNext_def)
next
  assume "stage s = Revealed \<and> currentIndex s + 1 < length items"
  then show "handleNext items now s
      = s\<lparr>currentIndex := currentIndex s + 1, stage := Reading, robotEmotion := Idle\<rparr>"
    by (auto simp: handleNext_def)
next
  assume a: "stage s = Revealed \<and> \<not> currentIndex s + 1 < length items"
  then show "handleNext items now s
      = s\<lparr>messages := messages s @ [congratulation_message now], robotEmotion := Happy\<rparr>"
    by (simp add: handleNext_finished)
  from a show "currentIndex (handleNext_calls items ts s) = currentIndex s"
    by (simp add: handleNext_calls_finished)
  from a show "stage (handleNext_calls items ts s) = Revealed"
    by (simp add: handleNext_calls_finished)
  from a show "messages (handleNext_calls items ts s) = messages s @ map congratulation_message ts"
    by (simp add: handleNext_calls_finished)
qed

text \<open>The spec's first scenario: the advance from the first item, and three advance
  calls at the last item.\<close>

theorem handleNext_advance_witness:
  "stage (initial_state\<lparr>stage := Revealed\<rparr>) = Revealed
   \<and> currentIndex (initial_state\<lparr>stage := Revealed\<rparr>) + 1 < length scenario_items
   \<and> currentIndex (handleNext scenario_items 2 (initial_state\<lparr>stage := Revealed\<rparr>)) = 1
   \<and> stage (handleNext scenario_items 2 (initial_state\<lparr>stage := Revealed\<rparr>)) = Reading
   \<and> stage (initial_state\<lparr>currentIndex := 1, stage := Revealed\<rparr>) = Revealed
   \<and> \<not> currentIndex (initial_state\<lparr>currentIndex := 1, stage := Revealed\<rparr>) + 1
        < length scenario_items
   \<and> currentIndex (handleNext_calls scenario_items [4, 5, 6]
        (initial_state\<lparr>currentIndex := 1, stage := Revealed\<rparr>)) = 1
   \<and> messages (handleNext_calls scenario_items [4, 5, 6]
        (initial_state\<lparr>currentIndex := 1, stage := Revealed\<rparr>))
       = messages initial_state
         @ [congratulation_message 4, congratulation_message 5, congratulation_message 6]"
proof -
  have a: "stage (initial_state\<lparr>stage := Revealed\<rparr>) = Revealed
     \<and> currentIndex (initial_state\<lparr>stage := Revealed\<rparr>) + 1 < length scenario_items"
    by (simp add: initial_state_def scenario_items_def)
  have b: "stage (initial_state\<lparr>currentIndex := 1, stage := Revealed\<rparr>) = Revealed
     \<and> \<not> currentIndex (initial_state\<lparr>currentIndex := 1, stage := Revealed\<rparr>) + 1
          < length scenario_items"
    by (simp add: initial_state_def scenario_items_def)
  from a handleNext_advance [of "initial_state\<lparr>stage := Revealed\<rparr>" scenario_items 2 "[]"]
  have c: "handleNext scenario_items 2 (initial_state\<lparr>stage := Revealed\<rparr>)
      = initial_state\<lparr>stage := Revealed\<rparr>
          \<lparr>currentIndex := currentIndex (initial_state\<lparr>stage := Revealed\<rparr>) + 1,
           stage := Reading, robotEmotion := Idle\<rparr>"
    by blast
  from b handleNext_advance [of "initial_state\<lparr>currentIndex := 1, stage := Revealed\<rparr>"
        scenario_items 4 "[4, 5, 6]"]
  have d: "currentIndex (handleNext_calls scenario_items [4, 5, 6]
        (initial_state\<lparr>currentIndex := 1, stage := Revealed\<rparr>))
      = currentIndex (initial_state\<lparr>currentIndex := 1, stage := Revealed\<rparr>)"
    and e: "messages (handleNext_calls scenario_items [4, 5, 6]
        (initial_state\<lparr>currentIndex := 1, stage := Revealed\<rparr>))
      = messages (initial_state\<lparr>currentIndex := 1, stage := Revealed\<rparr>)
        @ map congratulation_message [4, 5, 6]"
    by blast+
  show ?thesis
    using a b c d e by (simp add: initial_state_def del: handleNext_calls.simps)
qed

text \<open>
  Claim C4. Whenever a call of \<open>handleNext\<close> changes the index, the stage before was
  \<open>revealed\<close>, and the handler sets the stage to \<open>reading\<close> in the same batch of updates
  as the index: every state rendered after the click has the new index and the stage
  \<open>reading\<close>, the update made by the effect changes nothing, and along the rendered
  states the stage becomes \<open>reading\<close> exactly once. No state with the new index and the
  stage \<open>revealed\<close> is rendered.
\<close>

theorem stage_reset_on_index_change:
  assumes "currentIndex (handleNext items now s) \<noteq> currentIndex s"
  shows "stage s = Revealed
     \<and> click_next items now s =
         [s\<lparr>currentIndex := currentIndex s + 1, stage := Reading, robotEmotion := Idle\<rparr>,
          s\<lparr>currentIndex := currentIndex s + 1, stage := Reading, robotEmotion := Idle\<rparr>]
     \<and> (\<forall>c \<in> set (click_next items now s).
           currentIndex c = currentIndex s + 1 \<and> stage c = Reading)
     \<and> becomes_reading (s # click_next items now s) = 1"
  using assms
  by (cases "stage s")
     (auto simp: handleNext_def click_next_def stage_reset_effect_def split: if_splits)

theorem stage_reset_on_index_change_witness:
  "currentIndex (handleNext scenario_items 2 (initial_state\<lparr>stage := Revealed\<rparr>))
     \<noteq> currentIndex (initial_state\<lparr>stage := Revealed\<rparr>)
   \<and> map stage (click_next scenario_items 2 (initial_state\<lparr>stage := Revealed\<rparr>))
       = [Reading, Reading]
   \<and> map currentIndex (click_next scenario_items 2 (initial_state\<lparr>stage := Revealed\<rparr>))
       = [1, 1]
   \<and> becomes_reading (initial_state\<lparr>stage := Revealed\<rparr>
        # click_next scenario_items 2 (initial_state\<lparr>stage := Revealed\<rparr>)) = 1"
proof -
  have h: "currentIndex (handleNext scenario_items 2 (initial_state\<lparr>stage := Revealed\<rparr>))
     \<noteq> currentIndex (initial_state\<lparr>stage := Revealed\<rparr>)"
    by (simp add: handleNext_def initial_state_def scenario_items_def)
  show ?thesis
    using h stage_reset_on_index_change [OF h] by (simp add: initial_state_def)
qed

subsection \<open>Playing an idiom\<close>

lemma speakText_available:
  "speechSynthesis w = Some voices \<Longrightarrow>
   \<exists>u. speakText w l txt slow = ([SetRobotEmotion Speaking, SynthCancel, SynthSpeak u], None)
     \<and> utt_text u = txt \<and> utt_rate u = (if slow then 7 / 10 else 9 / 10)"
  by (simp add: speakText_def Let_def)

text \<open>
  Claim C5, as stated, fails: not every invocation of the play action in the idiom mode
  issues the two utterances. In a browser without speech synthesis, with Mandarin as
  the audio language, \<open>speakText\<close> takes its other branch and shows a notice: no
  utterance is issued, neither at once nor when the timer fires.
\<close>

theorem idiom_play_counterexample:
  "play_action silent_window Mandarin Idiom (currentItem [idiom_item] initial_state) = []
   \<and> timeline silent_window Mandarin
        (fst (handlePlayAudio silent_window Mandarin Idiom (currentItem [idiom_item] initial_state)))
       = [(0, SetRobotEmotion Speaking), (0, SetRobotEmotion Idle), (0, Alert tts_notice),
          (2000, SetRobotEmotion Speaking), (2000, SetRobotEmotion Idle),
          (2000, Alert tts_notice)]"
  by (simp add: play_action_def handlePlayAudio_def speakText_def currentItem_def
      initial_state_def silent_window_def)

text \<open>
  Claim C5, amended. In the idiom mode, when the browser has speech synthesis, every
  invocation of the play action on a current item issues exactly two utterances, in this
  order: at once the idiom text, at the normal rate 0.9; and 2000 milliseconds later the
  prefix followed by the meaning, at the same rate. The second is issued by a timer set
  when the first has been handed to the synthesiser; nothing in the handler waits for,
  or reads, the completion of the first.
\<close>

theorem idiom_play_order:
  assumes "speechSynthesis w = Some voices" and "currentItem items s = Some it"
  shows "map (\<lambda>(t, u). (t, utt_text u, utt_rate u)) (play_action w l Idiom (currentItem items s))
         = [(0, content it, 9 / 10), (2000, meaning_prefix @ template (meaning it), 9 / 10)]"
proof -
  obtain u where u:
    "speakText w l (content it) False = ([SetRobotEmotion Speaking, SynthCancel, SynthSpeak u], None)"
    "utt_text u = content it" "utt_rate u = 9 / 10"
    using speakText_available [OF assms(1), of l "content it" False] by auto
  obtain u' where u':
    "speakText w l (meaning_prefix @ template (meaning it)) False
       = ([SetRobotEmotion Speaking, SynthCancel, SynthSpeak u'], None)"
    "utt_text u' = meaning_prefix @ template (meaning it)" "utt_rate u' = 9 / 10"
    using speakText_available [OF assms(1), of l "meaning_prefix @ template (meaning it)" False]
    by auto
  show ?thesis
    using u u' assms(2) by (simp add: play_action_def handlePlayAudio_def)
qed

theorem idiom_play_order_witness:
  "speechSynthesis cantonese_window = Some [\<lparr> voice_lang = ascii ''zh-HK'' \<rparr>]
   \<and> currentItem [idiom_item] initial_state = Some idiom_item
   \<and> map (\<lambda>(t, u). (t, utt_text u, utt_rate u))
        (play_action cantonese_window Cantonese Idiom (currentItem [idiom_item] initial_state))
       = [(0, [0x756B, 0x86C7, 0x6DFB, 0x8DB3], 9 / 10),
          (2000, [0x610F, 0x601D, 0x662F, 0xFF1A, 0x591A, 0x6B64, 0x4E00, 0x8209], 9 / 10)]"
proof -
  have a: "speechSynthesis cantonese_window = Some [\<lparr> voice_lang = ascii ''zh-HK'' \<rparr>]"
    by (simp add: cantonese_window_def)
  have b: "currentItem [idiom_item] initial_state = Some idiom_item"
    by (simp add: currentItem_def initial_state_def)
  show ?thesis
    using a b idiom_play_order [OF a b, of Cantonese]
    by (simp add: idiom_item_def meaning_prefix_def template_def)
qed

subsection \<open>The transcript buffer\<close>

lemma join_empty_sep: "join [] ts = concat ts"
  by (induction "[] :: jsstring" ts rule: join.induct) simp_all

lemma top_transcripts_ok:
  "\<forall>r \<in> set rs. r \<noteq> [] \<Longrightarrow> top_transcripts rs = Inr (map (\<lambda>r. transcript (hd r)) rs)"
  by (induction rs rule: top_transcripts.induct) auto

lemma onresult_ok:
  "\<forall>r \<in> set (results event). r \<noteq> [] \<Longrightarrow>
   onresult event s
   = Inr (s\<lparr>chatInput := concat (map (\<lambda>r. transcript (hd r)) (results event))\<rparr>)"
  by (simp add: onresult_def top_transcripts_ok join_empty_sep)

lemma result_events_last:
  "events \<noteq> [] \<Longrightarrow> \<forall>event \<in> set events. \<forall>r \<in> set (results event). r \<noteq> [] \<Longrightarrow>
   result_events events s
   = s\<lparr>chatInput := concat (map (\<lambda>r. transcript (hd r)) (results (last events)))\<rparr>"
proof (induction events arbitrary: s)
  case Nil
  then show ?case by simp
next
  case (Cons e es)
  show ?case
  proof (cases "es = []")
    case True
    then show ?thesis using Cons.prems by (simp add: onresult_ok)
  next
    case False
    then show ?thesis using Cons.prems Cons.IH [OF False] by (simp add: onresult_ok)
  qed
qed

text \<open>
  Claim C7. For every sequence of result events in which each result has a top
  alternative, each event replaces the transcript buffer by the concatenation of the top
  transcripts of its results, in their order; so after the sequence the buffer holds
  the concatenation for the last event alone, whatever earlier events and the buffer
  before held: results overwrite, they are not appended across events.
\<close>

theorem onresult_replaces_transcript:
  assumes "events \<noteq> []"
    and "\<forall>event \<in> set events. \<forall>r \<in> set (results event). r \<noteq> []"
  shows "(\<forall>event \<in> set events. \<forall>s'.
            onresult event s'
            = Inr (s'\<lparr>chatInput := concat (map (\<lambda>r. transcript (hd r)) (results event))\<rparr>))
       \<and> result_events events s
          = s\<lparr>chatInput := concat (map (\<lambda>r. transcript (hd r)) (results (last events)))\<rparr>"
  using assms by (simp add: onresult_ok result_events_last)

text \<open>The spec's third scenario: the buffer ends as the second transcript.\<close>

theorem onresult_replaces_transcript_witness:
  "scenario_events \<noteq> []
   \<and> chatInput (result_events scenario_events initial_state) = [0x4F60, 0x597D, 0x55CE]"
proof -
  have a: "scenario_events \<noteq> []"
    by (simp add: scenario_events_def)
  have b: "\<forall>event \<in> set scenario_events. \<forall>r \<in> set (results event). r \<noteq> []"
    by (simp add: scenario_events_def)
  show ?thesis
    using a b onresult_replaces_transcript [OF a b, of initial_state]
    by (simp add: scenario_events_def)
qed

section \<open>Properties of the dialogue service\<close>

text \<open>
  Claim C6. For every history, message and context, and whatever the backend does,
  \<open>chatWithAssistant\<close> resolves to a reply, never rejects, and the reply is a non-empty
  string; when the backend call throws, the reply is the fixed fallback string.
\<close>

theorem chatWithAssistant_reply:
  "\<exists>reply. chatWithAssistant G history msg ctx = Inr reply \<and> reply \<noteq> []
     \<and> ((\<exists>e. G (chat_prompt history msg ctx) = Inl e) \<longrightarrow> reply = fallback_reply)"
  by (auto simp: chatWithAssistant_def fallback_reply_def default_reply_def
      split: sum.splits option.splits)

theorem chatWithAssistant_reply_witness:
  "(\<exists>e. (\<lambda>prompt. Inl ApiError) (chat_prompt [] (ascii ''hello'') None) = Inl e)
   \<and> chatWithAssistant (\<lambda>prompt. Inl ApiError) [] (ascii ''hello'') None = Inr fallback_reply
   \<and> fallback_reply \<noteq> []"
  using chatWithAssistant_reply [of "\<lambda>prompt. Inl ApiError" "[]" "ascii ''hello''" None]
  by auto

section \<open>Properties of the start of a session\<close>

text \<open>
  Claim C8. For every start request whose item list is empty, \<open>handleStart\<close> leaves the
  application state as it is, so the view does not change to the practice or worksheet
  view and the stored item list is unchanged, and it shows the content-missing notice.
\<close>

theorem handleStart_empty_list:
  "handleStart appState [] mode' language targetView = (appState, [no_content_notice])"
  by (simp add: handleStart_def)

lemma trim_white: "\<forall>c \<in> set s. isWhiteSpace c \<Longrightarrow> trim s = []"
proof -
  assume "\<forall>c \<in> set s. isWhiteSpace c"
  then have d: "dropWhile isWhiteSpace s = []"
    by (simp add: dropWhile_eq_Nil_conv)
  show ?thesis unfolding trim_def d by simp
qed

text \<open>
  Claim C10. If the raw text is empty or consists of white space only and there is no
  attachment, the process action does nothing: it performs no call of the extraction
  service (whatever that service would answer), updates no state of the form (loading
  flag, files) and does not call \<open>onStart\<close>, so the application state (view, item list)
  is unchanged and no alert is shown.
\<close>

theorem handleProcess_blank_input:
  assumes "\<forall>c \<in> set (setup_text st). isWhiteSpace c" and "files st = []"
  shows "handleProcess analyze st targetView = []
     \<and> process_action analyze (st, app) targetView = (st, app, [])"
  using assms by (simp add: handleProcess_def process_action_def trim_white)

theorem handleProcess_blank_input_witness:
  "trim (setup_text blank_setup) = [] \<and> files blank_setup = []
   \<and> handleProcess (analyzeMaterial example_parse (answering ids_payload)) blank_setup TPractice = []
   \<and> process_action (analyzeMaterial example_parse (answering ids_payload))
        (blank_setup, initial_appState) TPractice
       = (blank_setup, initial_appState, [])"
proof -
  have a: "\<forall>c \<in> set (setup_text blank_setup). isWhiteSpace c"
    by (simp add: blank_setup_def ascii_def isWhiteSpace_def)
  have b: "files blank_setup = []"
    by (simp add: blank_setup_def)
  show ?thesis
    using a b
      handleProcess_blank_input [OF a b, of "analyzeMaterial example_parse (answering ids_payload)"
        TPractice initial_appState]
    by (simp add: trim_white)
qed


end
